theory Spec2Isabelle
  imports Main
begin

section \<open>The packaging recipe \<open>conanfile.py\<close> of mylobsterpp\<close>

text \<open>
  The recipe is a class \<open>MyLobsterPPConan\<close> with two declarative tables (\<open>options\<close>,
  \<open>default_options\<close>) and five methods. The methods read the resolved options and the
  settings of the recipe object \<open>self\<close> and write to objects of the packaging framework:
  the variables of a CMake toolchain (\<open>generate\<close>) and the consumer metadata
  \<open>self.cpp_info\<close> (\<open>package_info\<close>). The objects are records here, the methods are
  functions that take the object they mutate and return it updated.
\<close>

subsection \<open>Values, errors and the recipe object\<close>

text \<open>
  The Python values that occur as an option value or as a toolchain variable: the recipe
  stores booleans; an override given by a caller may be any string.
\<close>

datatype pyval = PyBool bool | PyStr string

text \<open>
  The recipe defines no exception class and has no \<open>raise\<close> statement. The error names
  are those of the specification's taxonomy; they are needed to say which failure a
  method does or does not report.
\<close>

datatype error =
    InvalidOptionError
  | LayoutError
  | ConfigurationWriteError
  | BuildError
  | InstallError
  | UnsupportedPlatformError

text \<open>\<open>settings = "os", "compiler", "build_type", "arch"\<close>: the platform facts, each a name.\<close>

record settings =
  os :: string
  compiler :: string
  build_type :: string
  arch :: string

text \<open>
  The resolved options \<open>self.options\<close>. Both options are declared with the value domain
  \<open>[True, False]\<close>, so a resolved option is a boolean.
\<close>

record build_options =
  shared :: bool
  build_executable :: bool

text \<open>
  \<open>self.cpp_info\<close>: the attributes the recipe assigns (\<open>libs\<close>, \<open>requires\<close>,
  \<open>system_libs\<close>) and the property dictionary written by \<open>set_property\<close>.
\<close>

record cpp_info =
  libs :: "string list"
  properties :: "string \<rightharpoonup> string"
  requires :: "string list"
  system_libs :: "string list"

definition set_property :: "cpp_info \<Rightarrow> string \<Rightarrow> string \<Rightarrow> cpp_info" where
  "set_property ci k v = ci\<lparr>properties := (properties ci)(k \<mapsto> v)\<rparr>"

text \<open>The recipe object: the parts of \<open>self\<close> that the methods read or write.\<close>

record conanfile =
  self_settings :: settings
  self_options :: build_options
  self_cpp_info :: cpp_info

text \<open>The toolchain object \<open>tc\<close>; the recipe touches only its \<open>variables\<close> dictionary.\<close>

record cmake_toolchain =
  variables :: "string \<rightharpoonup> pyval"

subsection \<open>The declared tables\<close>

text \<open>
  \<^verbatim>\<open>
  options = { "shared": [True, False], "build_executable": [True, False] }
  default_options = { "shared": False, "build_executable": True }
  \<close>
\<close>

definition options :: "(string \<times> pyval list) list" where
  "options =
     [(''shared'', [PyBool True, PyBool False]),
      (''build_executable'', [PyBool True, PyBool False])]"

definition default_options :: "(string \<times> pyval) list" where
  "default_options =
     [(''shared'', PyBool False),
      (''build_executable'', PyBool True)]"

subsection \<open>\<open>generate\<close>\<close>

text \<open>
  \<^verbatim>\<open>
  def generate(self):
      tc = CMakeToolchain(self)
      tc.variables["MYLOBSTER_BUILD_TESTS"] = False
      tc.variables["MYLOBSTER_BUILD_SHARED"] = self.options.shared
      tc.variables["MYLOBSTER_BUILD_EXECUTABLE"] = self.options.build_executable
      tc.generate()
      deps = CMakeDeps(self)
      deps.generate()
  \<close>
  The constructor \<open>CMakeToolchain(self)\<close> belongs to the framework: the object it returns
  is the parameter \<open>tc0\<close>. The three assignments are the recipe's own work; the result
  is the toolchain object on which \<open>tc.generate()\<close> is then called. What the framework
  renders from it, and the dependency descriptors of \<open>CMakeDeps\<close>, are outside the recipe.
\<close>

definition generate :: "conanfile \<Rightarrow> cmake_toolchain \<Rightarrow> cmake_toolchain" where
  "generate self tc0 =
     (let tc = tc0;
          tc = tc\<lparr>variables := (variables tc)(''MYLOBSTER_BUILD_TESTS'' \<mapsto> PyBool False)\<rparr>;
          tc = tc\<lparr>variables := (variables tc)(''MYLOBSTER_BUILD_SHARED'' \<mapsto>
                  PyBool (shared (self_options self)))\<rparr>;
          tc = tc\<lparr>variables := (variables tc)(''MYLOBSTER_BUILD_EXECUTABLE'' \<mapsto>
                  PyBool (build_executable (self_options self)))\<rparr>
      in tc)"

subsection \<open>\<open>package_info\<close>\<close>

text \<open>
  \<^verbatim>\<open>
  def package_info(self):
      self.cpp_info.libs = ["mylobster_lib"]
      self.cpp_info.set_property("cmake_file_name", "mylobster")
      self.cpp_info.set_property("cmake_target_name", "mylobster::mylobster")
      self.cpp_info.requires = []
      # System deps that consumers need to link
      self.cpp_info.system_libs = ["pthread"]
      if self.settings.os == "Windows":
          self.cpp_info.system_libs = ["ws2_32"]
  \<close>
  The method has no \<open>raise\<close> and no call that the recipe guards: every path returns, so
  every branch of the model is \<open>Inr\<close> of the updated \<open>cpp_info\<close>.
\<close>

definition package_info :: "conanfile \<Rightarrow> error + cpp_info" where
  "package_info self =
     (let ci = self_cpp_info self;
          ci = ci\<lparr>libs := [''mylobster_lib'']\<rparr>;
          ci = set_property ci ''cmake_file_name'' ''mylobster'';
          ci = set_property ci ''cmake_target_name'' ''mylobster::mylobster'';
          ci = ci\<lparr>requires := []\<rparr>;
          ci = ci\<lparr>system_libs := [''pthread'']\<rparr>
      in if os (self_settings self) = ''Windows''
         then Inr (ci\<lparr>system_libs := [''ws2_32'']\<rparr>)
         else Inr ci)"

subsection \<open>\<open>package\<close>\<close>

text \<open>
  \<^verbatim>\<open>
  def package(self):
      cmake = CMake(self)
      cmake.install()
  \<close>
  The recipe builds the framework's helper for its own recipe object and calls the
  helper's \<open>install\<close> method, with no \<open>try\<close> around it: what the install step returns
  or raises is what \<open>package\<close> returns or raises. The install step works on the build
  output root and the package root; their contents are artifacts of the two categories
  the specification names.
\<close>

datatype artifact = Library string | Executable string

fun is_library :: "artifact \<Rightarrow> bool" where
  "is_library (Library n) = True"
| "is_library (Executable n) = False"

fun is_executable :: "artifact \<Rightarrow> bool" where
  "is_executable (Library n) = False"
| "is_executable (Executable n) = True"

record workspace =
  build_root :: "artifact list"
  package_root :: "artifact list"

record cmake =
  install :: "workspace \<Rightarrow> error + workspace"

text \<open>
  Modelled from the spec: the helper \<open>CMake(self)\<close> and its install step, which belong to
  the framework and the external build toolchain and are not part of the recipe's source.
  The specification (4.6): \<open>install\<close> "copies/arranges build outputs from the build
  output root into the install root following the toolchain's standard install
  conventions. Fails with InstallError if the build output root is empty or missing
  expected artifact categories (library vs executable) inconsistent with the BuildOptions
  used to configure the build (e.g., build_executable=true but no executable artifact
  present)". The library is expected in every configuration (the executable is built "in
  addition to the library", 4.1); the executable is expected when \<open>build_executable\<close> is
  set. The helper is bound to the recipe object it was constructed for and reads the
  options from it.
\<close>

definition CMake :: "conanfile \<Rightarrow> cmake" where
  "CMake self =
     \<lparr>install = (\<lambda>w.
        if build_root w = [] then Inl InstallError
        else if \<not> list_ex is_library (build_root w) then Inl InstallError
        else if build_executable (self_options self)
                \<and> \<not> list_ex is_executable (build_root w) then Inl InstallError
        else Inr (w\<lparr>package_root := build_root w\<rparr>))\<rparr>"

definition package :: "conanfile \<Rightarrow> workspace \<Rightarrow> error + workspace" where
  "package self w = (let cmake = CMake self in install cmake w)"

subsection \<open>Option resolution\<close>

text \<open>
  Modelled from the spec: the operation \<open>resolve(overrides)\<close> of the Option Set. The
  recipe only declares the two tables above; the resolution of a caller's overrides
  against them is carried out by the packaging framework and is not part of the recipe's
  source. The specification (4.1): \<open>resolve\<close> "takes a partial mapping of option name
  to value and returns a fully resolved BuildOptions, applying defaults for any option not
  overridden. Fails with InvalidOptionError if an override's value is outside the declared
  domain (e.g., non-boolean for a boolean option) or the option name is unrecognized. No
  side effects."

  The overrides are an association list (the first entry of a name counts, as
  \<open>map_of\<close> reads it). An entry is valid when its name is declared in \<open>options\<close> and its
  value is in the domain declared there.
\<close>

definition valid_override :: "string \<times> pyval \<Rightarrow> bool" where
  "valid_override kv =
     (case map_of options (fst kv) of
        None \<Rightarrow> False
      | Some d \<Rightarrow> snd kv \<in> set d)"

definition resolved_value :: "(string \<times> pyval) list \<Rightarrow> string \<Rightarrow> pyval option" where
  "resolved_value overrides k =
     (case map_of overrides k of
        Some v \<Rightarrow> Some v
      | None \<Rightarrow> map_of default_options k)"

definition resolve :: "(string \<times> pyval) list \<Rightarrow> error + build_options" where
  "resolve overrides =
     (if list_all valid_override overrides then
        (case (resolved_value overrides ''shared'',
               resolved_value overrides ''build_executable'') of
           (Some (PyBool s), Some (PyBool b)) \<Rightarrow> Inr \<lparr>shared = s, build_executable = b\<rparr>
         | _ \<Rightarrow> Inl InvalidOptionError)
      else Inl InvalidOptionError)"

text \<open>A resolved assignment written back as an override mapping that names every option.\<close>

definition as_overrides :: "build_options \<Rightarrow> (string \<times> pyval) list" where
  "as_overrides opts =
     [(''shared'', PyBool (shared opts)),
      (''build_executable'', PyBool (build_executable opts))]"

text \<open>
  Modelled from the spec: the control flow from the Option Set to the Toolchain
  Configurator, which the framework drives and the recipe does not contain. The
  specification (2, 7): "Option Set, Layout Resolver, Toolchain Configurator, ..." in this
  order, and "every stage failure aborts the entire pipeline". The toolchain object is
  produced only from options that resolved.
\<close>

definition resolve_then_generate ::
  "(string \<times> pyval) list \<Rightarrow> settings \<Rightarrow> cpp_info \<Rightarrow> cmake_toolchain \<Rightarrow> error + cmake_toolchain" where
  "resolve_then_generate overrides platform ci tc0 =
     (case resolve overrides of
        Inl e \<Rightarrow> Inl e
      | Inr opts \<Rightarrow>
          Inr (generate \<lparr>self_settings = platform, self_options = opts, self_cpp_info = ci\<rparr> tc0))"

text \<open>Concrete recipe objects and a fresh toolchain, used where a property is evaluated.\<close>

definition empty_cpp_info :: cpp_info where
  "empty_cpp_info = \<lparr>libs = [], properties = Map.empty, requires = [], system_libs = []\<rparr>"

definition fresh_toolchain :: cmake_toolchain where
  "fresh_toolchain = \<lparr>variables = Map.empty\<rparr>"

definition recipe_on :: "string \<Rightarrow> bool \<Rightarrow> bool \<Rightarrow> conanfile" where
  "recipe_on osname sh exe =
     \<lparr>self_settings = \<lparr>os = osname, compiler = ''gcc'', build_type = ''Release'', arch = ''x86_64''\<rparr>,
      self_options = \<lparr>shared = sh, build_executable = exe\<rparr>,
      self_cpp_info = empty_cpp_info\<rparr>"

section \<open>Properties\<close>

subsection \<open>Facts about option resolution\<close>

text \<open>
  Validity of an entry, read off the declared table: the name is one of the two declared
  and the value is one of the two declared for it.
\<close>

lemma valid_override_iff:
  "valid_override (k, v) =
     ((k = ''shared'' \<or> k = ''build_executable'') \<and> (v = PyBool True \<or> v = PyBool False))"
  by (auto simp: valid_override_def options_def)

lemma valid_lookup:
  "list_all valid_override overrides \<Longrightarrow> map_of overrides k = Some v \<Longrightarrow> valid_override (k, v)"
  by (auto simp: list_all_iff dest: map_of_SomeD)

lemma valid_lookup_bool:
  assumes "list_all valid_override overrides" and "map_of overrides k = Some v"
  shows "\<exists>b. v = PyBool b"
  using valid_lookup [OF assms] by (auto simp: valid_override_iff)

lemma resolved_value_shared:
  assumes "list_all valid_override overrides"
  shows "\<exists>b. resolved_value overrides ''shared'' = Some (PyBool b)"
proof (cases "map_of overrides ''shared''")
  case None
  then show ?thesis by (auto simp: resolved_value_def default_options_def)
next
  case (Some v)
  with valid_lookup_bool [OF assms Some] show ?thesis
    by (auto simp: resolved_value_def)
qed

lemma resolved_value_build_executable:
  assumes "list_all valid_override overrides"
  shows "\<exists>b. resolved_value overrides ''build_executable'' = Some (PyBool b)"
proof (cases "map_of overrides ''build_executable''")
  case None
  then show ?thesis by (auto simp: resolved_value_def default_options_def)
next
  case (Some v)
  with valid_lookup_bool [OF assms Some] show ?thesis
    by (auto simp: resolved_value_def)
qed

lemma resolve_valid:
  assumes "list_all valid_override overrides"
  shows "\<exists>s b. resolved_value overrides ''shared'' = Some (PyBool s)
           \<and> resolved_value overrides ''build_executable'' = Some (PyBool b)
           \<and> resolve overrides = Inr \<lparr>shared = s, build_executable = b\<rparr>"
proof -
  from resolved_value_shared [OF assms] obtain s
    where s: "resolved_value overrides ''shared'' = Some (PyBool s)" by blast
  from resolved_value_build_executable [OF assms] obtain b
    where b: "resolved_value overrides ''build_executable'' = Some (PyBool b)" by blast
  from assms s b show ?thesis by (simp add: resolve_def)
qed

lemma resolve_as_overrides: "resolve (as_overrides opts) = Inr opts"
  by (simp add: resolve_def as_overrides_def valid_override_iff resolved_value_def)


subsection \<open>The toolchain variables\<close>

text \<open>
  C1. For every resolved option assignment and every platform, the toolchain object
  produced by \<open>generate\<close> holds the test-enablement variable with the value false, the
  shared-library variable with the resolved value of \<open>shared\<close> and the
  executable-enablement variable with the resolved value of \<open>build_executable\<close>. These
  three are the only keys the recipe writes: the keys of the result are those of the
  freshly constructed toolchain plus the three, and exactly the three when the fresh
  toolchain has no variable. For \<open>shared = False\<close>, \<open>build_executable = True\<close> the values
  are false, true and (for the tests) false.
\<close>

theorem generate_variables:
  "variables (generate self tc) ''MYLOBSTER_BUILD_TESTS'' = Some (PyBool False)
   \<and> variables (generate self tc) ''MYLOBSTER_BUILD_SHARED''
       = Some (PyBool (shared (self_options self)))
   \<and> variables (generate self tc) ''MYLOBSTER_BUILD_EXECUTABLE''
       = Some (PyBool (build_executable (self_options self)))
   \<and> dom (variables (generate self tc))
       = dom (variables tc)
         \<union> {''MYLOBSTER_BUILD_TESTS'', ''MYLOBSTER_BUILD_SHARED'',
            ''MYLOBSTER_BUILD_EXECUTABLE''}
   \<and> dom (variables (generate self (tc\<lparr>variables := Map.empty\<rparr>)))
       = {''MYLOBSTER_BUILD_TESTS'', ''MYLOBSTER_BUILD_SHARED'',
          ''MYLOBSTER_BUILD_EXECUTABLE''}
   \<and> variables
        (generate (self\<lparr>self_options := \<lparr>shared = False, build_executable = True\<rparr>\<rparr>)
           (tc\<lparr>variables := Map.empty\<rparr>))
       = [''MYLOBSTER_BUILD_TESTS'' \<mapsto> PyBool False,
          ''MYLOBSTER_BUILD_SHARED'' \<mapsto> PyBool False,
          ''MYLOBSTER_BUILD_EXECUTABLE'' \<mapsto> PyBool True]"
  by (auto simp: generate_def)

subsection \<open>The option set\<close>

text \<open>
  C2. The option set consists of exactly two options, \<open>shared\<close> and \<open>build_executable\<close>,
  each with the boolean domain \<open>[True, False]\<close>; each has a declared default: \<open>shared\<close>
  defaults to false and \<open>build_executable\<close> to true. Resolving without overrides gives
  the defaults, and for every valid override mapping resolution succeeds and an option
  that the mapping does not name resolves to its default.
\<close>

theorem option_set_defaults:
  "map fst options = [''shared'', ''build_executable'']
   \<and> map snd options = [[PyBool True, PyBool False], [PyBool True, PyBool False]]
   \<and> map fst default_options = map fst options
   \<and> map_of default_options ''shared'' = Some (PyBool False)
   \<and> map_of default_options ''build_executable'' = Some (PyBool True)
   \<and> resolve [] = Inr \<lparr>shared = False, build_executable = True\<rparr>
   \<and> (list_all valid_override overrides \<longrightarrow>
        (\<exists>opts. resolve overrides = Inr opts
           \<and> (map_of overrides ''shared'' = None \<longrightarrow> shared opts = False)
           \<and> (map_of overrides ''build_executable'' = None \<longrightarrow> build_executable opts = True)))"
proof -
  have tables:
    "map fst options = [''shared'', ''build_executable'']"
    "map snd options = [[PyBool True, PyBool False], [PyBool True, PyBool False]]"
    "map fst default_options = map fst options"
    "map_of default_options ''shared'' = Some (PyBool False)"
    "map_of default_options ''build_executable'' = Some (PyBool True)"
    by (simp_all add: options_def default_options_def)
  have none: "resolve [] = Inr \<lparr>shared = False, build_executable = True\<rparr>"
    by (simp add: resolve_def resolved_value_def default_options_def)
  have unset: "\<exists>opts. resolve overrides = Inr opts
           \<and> (map_of overrides ''shared'' = None \<longrightarrow> shared opts = False)
           \<and> (map_of overrides ''build_executable'' = None \<longrightarrow> build_executable opts = True)"
    if v: "list_all valid_override overrides"
  proof -
    from resolve_valid [OF v] obtain s b
      where s: "resolved_value overrides ''shared'' = Some (PyBool s)"
        and b: "resolved_value overrides ''build_executable'' = Some (PyBool b)"
        and r: "resolve overrides = Inr \<lparr>shared = s, build_executable = b\<rparr>" by blast
    have "map_of overrides ''shared'' = None \<longrightarrow> s = False"
      using s by (auto simp: resolved_value_def default_options_def)
    moreover have "map_of overrides ''build_executable'' = None \<longrightarrow> b = True"
      using b by (auto simp: resolved_value_def default_options_def)
    ultimately show ?thesis using r by simp
  qed
  from tables none unset show ?thesis by blast
qed

text \<open>Overriding one option leaves the other at its default.\<close>

theorem option_set_defaults_witness:
  "list_all valid_override [(''shared'', PyBool True)]
   \<and> map_of [(''shared'', PyBool True)] ''build_executable'' = None
   \<and> resolve [(''shared'', PyBool True)] = Inr \<lparr>shared = True, build_executable = True\<rparr>
   \<and> list_all valid_override [(''build_executable'', PyBool False)]
   \<and> map_of [(''build_executable'', PyBool False)] ''shared'' = None
   \<and> resolve [(''build_executable'', PyBool False)]
       = Inr \<lparr>shared = False, build_executable = False\<rparr>"
  using option_set_defaults [of "[(''shared'', PyBool True)]"]
    option_set_defaults [of "[(''build_executable'', PyBool False)]"]
  by (simp add: valid_override_iff resolve_def resolved_value_def default_options_def)

text \<open>
  C7. For every valid override mapping, option resolution is idempotent. Resolution
  succeeds; resolving the resolved assignment again (written back as overrides) returns
  the same assignment; and resolving the same mapping once more, in whatever association
  list it is given, returns the same assignment.
\<close>

theorem resolve_idempotent:
  assumes "list_all valid_override overrides"
  shows "\<exists>opts. resolve overrides = Inr opts
           \<and> resolve (as_overrides opts) = Inr opts
           \<and> (\<forall>overrides'. list_all valid_override overrides'
                  \<and> map_of overrides' = map_of overrides
                \<longrightarrow> resolve overrides' = Inr opts)"
proof -
  from resolve_valid [OF assms] obtain s b
    where s: "resolved_value overrides ''shared'' = Some (PyBool s)"
      and b: "resolved_value overrides ''build_executable'' = Some (PyBool b)"
      and r: "resolve overrides = Inr \<lparr>shared = s, build_executable = b\<rparr>" by blast
  have "resolve overrides' = Inr \<lparr>shared = s, build_executable = b\<rparr>"
    if "list_all valid_override overrides'" and "map_of overrides' = map_of overrides"
    for overrides'
    using that s b by (simp add: resolve_def resolved_value_def)
  with r resolve_as_overrides show ?thesis by blast
qed

text \<open>
  The mapping \<open>{shared: True}\<close>, also given with a shadowed second entry for the same
  name.
\<close>

theorem resolve_idempotent_witness:
  "list_all valid_override [(''shared'', PyBool True)]
   \<and> resolve [(''shared'', PyBool True)] = Inr \<lparr>shared = True, build_executable = True\<rparr>
   \<and> resolve (as_overrides \<lparr>shared = True, build_executable = True\<rparr>)
       = Inr \<lparr>shared = True, build_executable = True\<rparr>
   \<and> resolve [(''shared'', PyBool True), (''shared'', PyBool False)]
       = Inr \<lparr>shared = True, build_executable = True\<rparr>"
  using resolve_idempotent [of "[(''shared'', PyBool True)]"]
  by (simp add: valid_override_iff resolve_def resolved_value_def default_options_def
      as_overrides_def)

text \<open>
  C8. For every override mapping that has an entry with an unrecognized option name or
  with a value outside the declared boolean domain, resolution fails with
  \<open>InvalidOptionError\<close>, and the pipeline that resolves and then configures produces no
  toolchain configuration: it ends with the same error. Resolution is a function of the
  overrides alone and returns no state, so there is nothing it could have mutated.
\<close>

theorem invalid_override_rejected:
  assumes "(k, v) \<in> set overrides"
    and "k \<notin> {''shared'', ''build_executable''} \<or> v \<notin> {PyBool True, PyBool False}"
  shows "resolve overrides = Inl InvalidOptionError
         \<and> resolve_then_generate overrides platform ci tc = Inl InvalidOptionError"
proof -
  from assms(2) have "\<not> valid_override (k, v)"
    by (auto simp: valid_override_iff)
  with assms(1) have "\<not> list_all valid_override overrides"
    by (auto simp: list_all_iff)
  then show ?thesis
    by (simp add: resolve_def resolve_then_generate_def)
qed

text \<open>
  The override \<open>{shared: "yes"}\<close>, and an override mapping with the undeclared name
  \<open>fast\<close>.
\<close>

theorem invalid_override_rejected_witness:
  "(''shared'', PyStr ''yes'') \<in> set [(''shared'', PyStr ''yes'')]
   \<and> PyStr ''yes'' \<notin> {PyBool True, PyBool False}
   \<and> resolve [(''shared'', PyStr ''yes'')] = Inl InvalidOptionError
   \<and> resolve_then_generate [(''shared'', PyStr ''yes'')]
        (self_settings (recipe_on ''Linux'' False True)) empty_cpp_info fresh_toolchain
       = Inl InvalidOptionError
   \<and> (''fast'', PyBool True) \<in> set [(''build_executable'', PyBool True), (''fast'', PyBool True)]
   \<and> ''fast'' \<notin> {''shared'', ''build_executable''}
   \<and> resolve [(''build_executable'', PyBool True), (''fast'', PyBool True)]
       = Inl InvalidOptionError"
  using invalid_override_rejected [of "''shared''" "PyStr ''yes''" "[(''shared'', PyStr ''yes'')]"
      "self_settings (recipe_on ''Linux'' False True)" empty_cpp_info fresh_toolchain]
    invalid_override_rejected [of "''fast''" "PyBool True"
      "[(''build_executable'', PyBool True), (''fast'', PyBool True)]"]
  by simp

subsection \<open>The published package information\<close>

text \<open>
  C5. For every recipe object, \<open>package_info\<close> returns (it is a function of the recipe
  object, with no input or output besides) a fixed consumer contract: the link-library
  list is exactly \<open>["mylobster_lib"]\<close>, the package file name is \<open>"mylobster"\<close>, the
  target name is \<open>"mylobster::mylobster"\<close>, and the \<open>requires\<close> list is empty.
\<close>

theorem package_info_contract:
  "\<exists>ci. package_info self = Inr ci
     \<and> libs ci = [''mylobster_lib'']
     \<and> properties ci ''cmake_file_name'' = Some ''mylobster''
     \<and> properties ci ''cmake_target_name'' = Some ''mylobster::mylobster''
     \<and> requires ci = []"
  by (simp add: package_info_def Let_def set_property_def)

text \<open>
  C3. For every platform, the published system-library list is exactly \<open>["ws2_32"]\<close>
  when the OS is Windows, and exactly \<open>["pthread"]\<close> when the OS is Linux, macOS
  (\<open>Macos\<close> among the framework's OS names), FreeBSD or any other OS that is not
  Windows, which covers every POSIX family.
\<close>

theorem system_libs_by_platform:
  "(os (self_settings self) = ''Windows'' \<longrightarrow>
      (\<exists>ci. package_info self = Inr ci \<and> system_libs ci = [''ws2_32'']))
   \<and> (os (self_settings self) \<in> {''Linux'', ''Macos'', ''FreeBSD''} \<longrightarrow>
      (\<exists>ci. package_info self = Inr ci \<and> system_libs ci = [''pthread'']))
   \<and> (os (self_settings self) \<noteq> ''Windows'' \<longrightarrow>
      (\<exists>ci. package_info self = Inr ci \<and> system_libs ci = [''pthread'']))"
  by (auto simp: package_info_def Let_def)

text \<open>On Windows, Linux and macOS.\<close>

theorem system_libs_by_platform_witness:
  "os (self_settings (recipe_on ''Windows'' False True)) = ''Windows''
   \<and> map_sum id system_libs (package_info (recipe_on ''Windows'' False True)) = Inr [''ws2_32'']
   \<and> os (self_settings (recipe_on ''Linux'' False True)) \<in> {''Linux'', ''Macos'', ''FreeBSD''}
   \<and> os (self_settings (recipe_on ''Linux'' False True)) \<noteq> ''Windows''
   \<and> map_sum id system_libs (package_info (recipe_on ''Linux'' False True)) = Inr [''pthread'']
   \<and> os (self_settings (recipe_on ''Macos'' False True)) \<in> {''Linux'', ''Macos'', ''FreeBSD''}
   \<and> map_sum id system_libs (package_info (recipe_on ''Macos'' False True)) = Inr [''pthread'']"
  using system_libs_by_platform [of "recipe_on ''Windows'' False True"]
    system_libs_by_platform [of "recipe_on ''Linux'' False True"]
    system_libs_by_platform [of "recipe_on ''Macos'' False True"]
  by (auto simp: recipe_on_def)

text \<open>
  The statement that an OS value outside the recognized families makes the
  system-library selection fail with \<open>UnsupportedPlatformError\<close> does not hold of
  \<open>package_info\<close>: on \<open>baremetal\<close>, an OS name of the framework that is neither Windows
  nor POSIX-like, it returns the full contract with the list \<open>["pthread"]\<close>.
\<close>

theorem unrecognized_os_counterexample:
  "package_info (recipe_on ''baremetal'' False True)
     = Inr \<lparr>libs = [''mylobster_lib''],
            properties = [''cmake_file_name'' \<mapsto> ''mylobster'',
                          ''cmake_target_name'' \<mapsto> ''mylobster::mylobster''],
            requires = [],
            system_libs = [''pthread'']\<rparr>
   \<and> package_info (recipe_on ''baremetal'' False True) \<noteq> Inl UnsupportedPlatformError"
  by (simp add: package_info_def recipe_on_def empty_cpp_info_def set_property_def)

text \<open>
  C4, as amended. \<open>package_info\<close> has no failing path: for every platform it returns a
  system-library list and never \<open>UnsupportedPlatformError\<close> (nor any other error). For
  every OS value other than Windows, the unrecognized ones included, the list is
  \<open>["pthread"]\<close>: the assignment before the \<open>if\<close> is the default for every OS that the
  comparison with \<open>"Windows"\<close> does not single out.
\<close>

theorem package_info_never_fails:
  "(\<forall>e. package_info self \<noteq> Inl e)
   \<and> (os (self_settings self) \<noteq> ''Windows'' \<longrightarrow>
        (\<exists>ci. package_info self = Inr ci \<and> system_libs ci = [''pthread'']))"
  by (auto simp: package_info_def Let_def)

text \<open>On \<open>Emscripten\<close>, another OS name outside both families.\<close>

theorem package_info_never_fails_witness:
  "os (self_settings (recipe_on ''Emscripten'' True False)) \<noteq> ''Windows''
   \<and> map_sum id system_libs (package_info (recipe_on ''Emscripten'' True False))
       = Inr [''pthread'']
   \<and> package_info (recipe_on ''Emscripten'' True False) \<noteq> Inl UnsupportedPlatformError"
  using package_info_never_fails [of "recipe_on ''Emscripten'' True False"]
  by (auto simp: recipe_on_def)

text \<open>
  C10. The published package information is independent of the build options: for any
  two resolved option assignments on the same recipe object, \<open>package_info\<close> returns the
  same result. More generally two recipe objects with the same OS setting and the same
  initial \<open>cpp_info\<close> get the same result, whatever their options, compiler, build type
  and architecture; and the library list, the package name, the target name, the
  \<open>requires\<close> list and the system-library list depend on the OS setting alone.
\<close>

theorem package_info_option_invariant:
  "package_info (self\<lparr>self_options := o1\<rparr>) = package_info (self\<lparr>self_options := o2\<rparr>)
   \<and> (os (self_settings s1) = os (self_settings s2) \<and> self_cpp_info s1 = self_cpp_info s2
        \<longrightarrow> package_info s1 = package_info s2)
   \<and> (os (self_settings s1) = os (self_settings s2)
        \<longrightarrow> map_sum id (\<lambda>ci. (libs ci, properties ci ''cmake_file_name'',
                properties ci ''cmake_target_name'', requires ci, system_libs ci))
              (package_info s1)
          = map_sum id (\<lambda>ci. (libs ci, properties ci ''cmake_file_name'',
                properties ci ''cmake_target_name'', requires ci, system_libs ci))
              (package_info s2))"
  by (simp add: package_info_def Let_def set_property_def)

text \<open>Static with executable against shared without executable, on Linux.\<close>

theorem package_info_option_invariant_witness:
  "os (self_settings (recipe_on ''Linux'' False True))
     = os (self_settings (recipe_on ''Linux'' True False))
   \<and> self_cpp_info (recipe_on ''Linux'' False True)
     = self_cpp_info (recipe_on ''Linux'' True False)
   \<and> self_options (recipe_on ''Linux'' False True)
     \<noteq> self_options (recipe_on ''Linux'' True False)
   \<and> package_info (recipe_on ''Linux'' False True) = package_info (recipe_on ''Linux'' True False)"
  using package_info_option_invariant [of _ _ _ "recipe_on ''Linux'' False True"
      "recipe_on ''Linux'' True False"]
  by (simp add: recipe_on_def)

subsection \<open>The install step\<close>

text \<open>
  C9. When \<open>package\<close> is invoked on an empty build output root while the build was
  configured with \<open>build_executable = True\<close>, it fails with \<open>InstallError\<close> rather than
  succeeding; and so it does on every build output root that holds no executable
  artifact. The recipe hands the failure of the install step on unchanged.
\<close>

theorem package_missing_executable_fails:
  "(build_executable (self_options self) \<and> build_root w = []
      \<longrightarrow> package self w = Inl InstallError)
   \<and> (build_executable (self_options self) \<and> \<not> list_ex is_executable (build_root w)
      \<longrightarrow> package self w = Inl InstallError)"
  by (simp add: package_def CMake_def)

text \<open>
  On the empty root and on a root with the library alone, with \<open>build_executable = True\<close>;
  for comparison, the same recipe object on a root that holds the library and the
  executable, where the install step succeeds.
\<close>

theorem package_missing_executable_fails_witness:
  "build_executable (self_options (recipe_on ''Linux'' False True))
   \<and> build_root \<lparr>build_root = [], package_root = []\<rparr> = []
   \<and> package (recipe_on ''Linux'' False True) \<lparr>build_root = [], package_root = []\<rparr>
       = Inl InstallError
   \<and> \<not> list_ex is_executable
         (build_root \<lparr>build_root = [Library ''mylobster_lib''], package_root = []\<rparr>)
   \<and> package (recipe_on ''Linux'' False True)
        \<lparr>build_root = [Library ''mylobster_lib''], package_root = []\<rparr>
       = Inl InstallError
   \<and> package (recipe_on ''Linux'' False True)
        \<lparr>build_root = [Library ''mylobster_lib'', Executable ''mylobster''],
         package_root = []\<rparr>
       = Inr \<lparr>build_root = [Library ''mylobster_lib'', Executable ''mylobster''],
              package_root = [Library ''mylobster_lib'', Executable ''mylobster'']\<rparr>"
  using package_missing_executable_fails [of "recipe_on ''Linux'' False True"
      "\<lparr>build_root = [], package_root = []\<rparr>"]
    package_missing_executable_fails [of "recipe_on ''Linux'' False True"
      "\<lparr>build_root = [Library ''mylobster_lib''], package_root = []\<rparr>"]
  by (simp add: recipe_on_def package_def CMake_def)

end
